theory Spec2Isabelle
  imports Complex_Main
begin

section \<open>The optimization runner of doin-optimizer\<close>

text \<open>
  A shallow embedding of \<^verbatim>\<open>src/doin_optimizer/runner.py\<close>. The runner object is a record
  that every method takes and returns; what a method does to the outside (requests posted
  to the node, log lines) is collected in a second record, the world. A method that can
  raise returns an outcome \<open>error + 'a\<close> next to the two records, since the Python
  object outlives the exception.

  Performances are Python floats: IEEE binary64 values with their comparisons, which are
  false on NaN, and their rounded arithmetic.
\<close>

subsection \<open>Python floats\<close>

text \<open>
  A float is NaN, an infinity, or a finite value, given by the real number it denotes (for
  a value that the program computes, a real that binary64 represents). The two zeros are
  one value here; no operation of the runner tells them apart.
\<close>

datatype pyfloat = Finite real | PosInf | NegInf | NaN

text \<open>\<^verbatim>\<open>x <= y\<close>, \<^verbatim>\<open>x >= y\<close>, \<^verbatim>\<open>x < y\<close> and \<^verbatim>\<open>x == y\<close>: false whenever an operand is NaN.\<close>

fun float_le :: "pyfloat \<Rightarrow> pyfloat \<Rightarrow> bool" where
  "float_le NaN y = False"
| "float_le x NaN = False"
| "float_le NegInf y = True"
| "float_le x PosInf = True"
| "float_le PosInf y = False"
| "float_le x NegInf = False"
| "float_le (Finite a) (Finite b) = (a \<le> b)"

definition float_ge :: "pyfloat \<Rightarrow> pyfloat \<Rightarrow> bool" where
  "float_ge x y = float_le y x"

fun float_lt :: "pyfloat \<Rightarrow> pyfloat \<Rightarrow> bool" where
  "float_lt NaN y = False"
| "float_lt x NaN = False"
| "float_lt x NegInf = False"
| "float_lt PosInf y = False"
| "float_lt NegInf y = True"
| "float_lt x PosInf = True"
| "float_lt (Finite a) (Finite b) = (a < b)"

fun float_eq :: "pyfloat \<Rightarrow> pyfloat \<Rightarrow> bool" where
  "float_eq NaN y = False"
| "float_eq x NaN = False"
| "float_eq x y = (x = y)"

text \<open>
  Rounding to binary64, to nearest with ties to even. \<open>binade x\<close> is the exponent \<open>k\<close>
  with \<open>2^k \<le> |x| < 2^(k+1)\<close>, found by halving or doubling. A value has 53 significant
  bits, and none below \<open>2^-1074\<close>; what rounds to \<open>2^1024\<close> or beyond is an infinity.
\<close>

function binade_up :: "real \<Rightarrow> int" where
  "binade_up x = (if x < 2 then 0 else binade_up (x / 2) + 1)"
  by pat_completeness auto
termination
proof (relation "measure (\<lambda>x. nat \<lfloor>x\<rfloor>)")
  show "wf (measure (\<lambda>x::real. nat \<lfloor>x\<rfloor>))" by simp
next
  fix x :: real
  assume "\<not> x < 2"
  then have "x / 2 + 1 \<le> x" by simp
  then have "\<lfloor>x / 2\<rfloor> + 1 \<le> \<lfloor>x\<rfloor>" by linarith
  moreover from \<open>\<not> x < 2\<close> have "0 < \<lfloor>x\<rfloor>" by linarith
  ultimately show "(x / 2, x) \<in> measure (\<lambda>x. nat \<lfloor>x\<rfloor>)" by simp
qed

function binade_down :: "real \<Rightarrow> int" where
  "binade_down x = (if x \<le> 0 \<or> 1 \<le> x then 0 else binade_down (2 * x) - 1)"
  by pat_completeness auto
termination
proof (relation "measure (\<lambda>x. nat \<lceil>1 / x\<rceil>)")
  show "wf (measure (\<lambda>x::real. nat \<lceil>1 / x\<rceil>))" by simp
next
  fix x :: real
  assume "\<not> (x \<le> 0 \<or> 1 \<le> x)"
  then have x: "0 < x" "x < 1" by auto
  then have y: "1 < 1 / x" by simp
  define y where "y = 1 / x"
  with y have y1: "1 < y" by simp
  then have "2 \<le> \<lceil>y\<rceil>" by linarith
  then have a: "(2::real) \<le> of_int \<lceil>y\<rceil>" by (metis of_int_le_iff of_int_numeral)
  have b: "y \<le> of_int \<lceil>y\<rceil>" by (rule le_of_int_ceiling)
  from a b have "y / 2 \<le> of_int \<lceil>y\<rceil> - 1" by linarith
  then have "y / 2 \<le> of_int (\<lceil>y\<rceil> - 1)" by simp
  then have c: "\<lceil>y / 2\<rceil> \<le> \<lceil>y\<rceil> - 1" by (rule ceiling_le)
  have eq: "1 / (2 * x) = y / 2" by (simp add: y_def)
  from c have "\<lceil>1 / (2 * x)\<rceil> < \<lceil>y\<rceil>" unfolding eq by linarith
  then have lt: "\<lceil>1 / (2 * x)\<rceil> < \<lceil>1 / x\<rceil>" unfolding y_def .
  from y have pos: "0 < \<lceil>1 / x\<rceil>" by linarith
  from lt pos show "(2 * x, x) \<in> measure (\<lambda>x. nat \<lceil>1 / x\<rceil>)" by simp
qed

declare binade_up.simps [simp del] binade_down.simps [simp del]

definition binade :: "real \<Rightarrow> int" where
  "binade x = (if 1 \<le> \<bar>x\<bar> then binade_up \<bar>x\<bar> else binade_down \<bar>x\<bar>)"

definition pow2 :: "int \<Rightarrow> real" where
  "pow2 k = (if 0 \<le> k then 2 ^ nat k else 1 / 2 ^ nat (- k))"

definition round_half_even :: "real \<Rightarrow> int" where
  "round_half_even x =
     (let f = \<lfloor>x\<rfloor>; d = x - of_int f
      in if d < 1 / 2 then f else if 1 / 2 < d then f + 1 else if even f then f else f + 1)"

definition round_binary64 :: "real \<Rightarrow> pyfloat" where
  "round_binary64 x =
     (if x = 0 then Finite 0
      else
        (let e = max (binade x - 52) (- 1074);
             y = of_int (round_half_even (x / pow2 e)) * pow2 e
         in if pow2 1024 \<le> \<bar>y\<bar> then (if 0 < y then PosInf else NegInf) else Finite y))"

text \<open>\<^verbatim>\<open>x - y\<close> and \<^verbatim>\<open>abs(x)\<close>\<close>

fun float_sub :: "pyfloat \<Rightarrow> pyfloat \<Rightarrow> pyfloat" where
  "float_sub NaN y = NaN"
| "float_sub x NaN = NaN"
| "float_sub PosInf PosInf = NaN"
| "float_sub NegInf NegInf = NaN"
| "float_sub PosInf y = PosInf"
| "float_sub NegInf y = NegInf"
| "float_sub (Finite a) PosInf = NegInf"
| "float_sub (Finite a) NegInf = PosInf"
| "float_sub (Finite a) (Finite b) = round_binary64 (a - b)"

fun float_abs :: "pyfloat \<Rightarrow> pyfloat" where
  "float_abs NaN = NaN"
| "float_abs PosInf = PosInf"
| "float_abs NegInf = PosInf"
| "float_abs (Finite a) = Finite \<bar>a\<bar>"

subsection \<open>Python values\<close>

datatype pyval = PNone | PBool bool | PInt int | PFloat pyfloat | PStr string

text \<open>The truth value Python gives an object in \<^verbatim>\<open>if x\<close>, \<^verbatim>\<open>x and y\<close> and \<^verbatim>\<open>not x\<close>.\<close>

fun truthy :: "pyval \<Rightarrow> bool" where
  "truthy PNone = False"
| "truthy (PBool b) = b"
| "truthy (PInt i) = (i \<noteq> 0)"
| "truthy (PFloat x) = (x \<noteq> Finite 0)"
| "truthy (PStr s) = (s \<noteq> [])"

type_synonym pydict = "string \<rightharpoonup> pyval"

text \<open>\<^verbatim>\<open>d.get(key, default)\<close>\<close>

definition dict_get :: "pydict \<Rightarrow> string \<Rightarrow> pyval \<Rightarrow> pyval" where
  "dict_get d k dflt = (case d k of None \<Rightarrow> dflt | Some v \<Rightarrow> v)"

subsection \<open>Data model\<close>

datatype error = RuntimeError string | AssertionError | PluginLoadError | ConfigurationError

record OptimizerConfig =
  domain_id :: string
  plugin_name :: string
  plugin_config :: pydict
  node_endpoint :: string
  optimization_interval :: pyfloat
  max_steps :: "int option"

text \<open>
  The plugin is an object of \<^verbatim>\<open>doin_core\<close>, outside this repository: the runner calls
  \<^verbatim>\<open>configure\<close>, \<^verbatim>\<open>optimize\<close> and \<^verbatim>\<open>get_domain_metadata\<close> on it and knows nothing else. It
  is a parameter of the model: its private state \<open>'ps\<close> and the three methods as functions
  of that state. \<^verbatim>\<open>optimize\<close> returns a pair, raises \<^verbatim>\<open>NoImprovementError\<close>, or raises
  anything else.
\<close>

datatype optimize_result =
    Returned pydict pyfloat
  | NoImprovementError
  | OtherException

record 'ps OptimizationPlugin =
  plugin_state :: 'ps
  configure :: "'ps \<Rightarrow> pydict \<Rightarrow> 'ps option"
  optimize :: "'ps \<Rightarrow> pydict option \<Rightarrow> pyfloat option \<Rightarrow> optimize_result \<times> 'ps"
  get_domain_metadata :: "'ps \<Rightarrow> pydict"

text \<open>\<^verbatim>\<open>doin_core.models.optimae.Optimae\<close>: the fields the runner sets, and the id the
  constructor assigns.\<close>

record Optimae =
  optimae_id :: string
  optimae_domain_id :: string
  optimizer_id :: string
  parameters :: pydict
  reported_performance :: pyfloat
  performance_increment :: pyfloat

record OptimaeAnnouncement =
  ann_domain_id :: string
  ann_optimae_id :: string
  ann_parameters :: pydict
  ann_reported_performance :: pyfloat
  previous_best_performance :: "pyfloat option"

datatype MessageType = OPTIMAE_ANNOUNCEMENT

record Message =
  msg_type :: MessageType
  sender_id :: string
  payload :: OptimaeAnnouncement

text \<open>\<^verbatim>\<open>self._session\<close> is \<^verbatim>\<open>None\<close> or an aiohttp \<^verbatim>\<open>ClientSession\<close>, which is open until
  \<^verbatim>\<open>close()\<close> and stays in the field afterwards.\<close>

datatype ClientSession = SessionOpen | SessionClosed

record 'ps OptimizationRunner =
  config :: OptimizerConfig
  peer_id :: string
  plugin :: "'ps OptimizationPlugin option"
  session :: "ClientSession option"
  running :: bool
  steps_completed :: nat
  improvements_found :: nat
  current_best_params :: "pydict option"
  current_best_performance :: "pyfloat option"

subsection \<open>The world outside the runner\<close>

datatype log_entry =
    LogInfo string
  | LogWarning string
  | LogDebug string
  | LogException string

record world =
  requests :: "(string \<times> Message) list"
  logs :: "log_entry list"

definition log_to :: "world \<Rightarrow> log_entry \<Rightarrow> world" where
  "log_to w l = w\<lparr>logs := logs w @ [l]\<rparr>"

text \<open>What \<^verbatim>\<open>session.post\<close> does on an open session: a response with its status, or an
  exception of the transport.\<close>

datatype post_outcome = Response nat | TransportFault

text \<open>What the surroundings contribute to one step: the id the \<^verbatim>\<open>Optimae\<close> constructor
  assigns and the node's answer to a request, should the step create a record and post it.\<close>

record step_env =
  new_id :: string
  post_result :: post_outcome

subsection \<open>Construction and plugin binding\<close>

text \<open>\<^verbatim>\<open>__init__\<close>: \<^verbatim>\<open>identity or PeerIdentity.generate()\<close>; the generated identity's id is
  the second argument.\<close>

definition OptimizationRunner_init ::
  "OptimizerConfig \<Rightarrow> string option \<Rightarrow> string \<Rightarrow> 'ps OptimizationRunner" where
  "OptimizationRunner_init cfg identity generated =
     \<lparr>config = cfg,
      peer_id = (case identity of None \<Rightarrow> generated | Some i \<Rightarrow> i),
      plugin = None,
      session = None,
      running = False,
      steps_completed = 0,
      improvements_found = 0,
      current_best_params = None,
      current_best_performance = None\<rparr>"

text \<open>\<^verbatim>\<open>load_plugin\<close>: the loader of \<^verbatim>\<open>doin_core\<close> is a registry from names to plugin
  objects; the object is bound before it is configured.\<close>

definition load_plugin ::
  "(string \<rightharpoonup> 'ps OptimizationPlugin) \<Rightarrow> 'ps OptimizationRunner \<times> world \<Rightarrow>
     (error + unit) \<times> 'ps OptimizationRunner \<times> world" where
  "load_plugin registry rw =
     (case rw of (r, w) \<Rightarrow>
       (case registry (plugin_name (config r)) of
          None \<Rightarrow> (Inl PluginLoadError, r, w)
        | Some p \<Rightarrow>
            (case configure p (plugin_state p) (plugin_config (config r)) of
               None \<Rightarrow> (Inl ConfigurationError, r\<lparr>plugin := Some p\<rparr>, w)
             | Some ps' \<Rightarrow>
                 (Inr (), r\<lparr>plugin := Some (p\<lparr>plugin_state := ps'\<rparr>)\<rparr>,
                  log_to w (LogInfo ''Loaded optimization plugin'')))))"

definition set_plugin ::
  "'ps OptimizationPlugin \<Rightarrow> 'ps OptimizationRunner \<Rightarrow> 'ps OptimizationRunner" where
  "set_plugin p r = r\<lparr>plugin := Some p\<rparr>"

subsection \<open>Submission\<close>

text \<open>
  \<^verbatim>\<open>_submit_optimae\<close>. Without a session nothing is sent. The announcement reads
  \<^verbatim>\<open>self._current_best_performance\<close> at the time of the call. A closed session raises
  inside the \<^verbatim>\<open>try\<close> before anything is sent; on an open one the request goes out once
  and its outcome decides the result.
\<close>

definition submit_optimae ::
  "post_outcome \<Rightarrow> 'ps OptimizationRunner \<Rightarrow> Optimae \<Rightarrow> world \<Rightarrow> bool \<times> world" where
  "submit_optimae net r optimae w =
     (case session r of
        None \<Rightarrow> (False, log_to w (LogWarning ''No session - cannot submit optimae''))
      | Some sess \<Rightarrow>
          (let announcement =
                 \<lparr>ann_domain_id = optimae_domain_id optimae,
                  ann_optimae_id = optimae_id optimae,
                  ann_parameters = parameters optimae,
                  ann_reported_performance = reported_performance optimae,
                  previous_best_performance = current_best_performance r\<rparr>;
               message =
                 \<lparr>msg_type = OPTIMAE_ANNOUNCEMENT,
                  sender_id = peer_id r,
                  payload = announcement\<rparr>;
               url = ''http://'' @ node_endpoint (config r) @ ''/message''
           in (case sess of
                 SessionClosed \<Rightarrow> (False, log_to w (LogDebug ''Failed to submit optimae''))
               | SessionOpen \<Rightarrow>
                   (let w1 = w\<lparr>requests := requests w @ [(url, message)]\<rparr>
                    in (case net of
                          TransportFault \<Rightarrow>
                            (False, log_to w1 (LogDebug ''Failed to submit optimae''))
                        | Response status \<Rightarrow>
                            (let success = (status = 200)
                             in if \<not> success
                                then (False,
                                      log_to w1 (LogWarning ''Failed to submit optimae: HTTP''))
                                else (success, w1)))))))"

subsection \<open>One optimization step\<close>

text \<open>
  \<^verbatim>\<open>_optimization_step\<close>. The two early returns of the improvement check are the
  value \<open>rejected\<close>; the metadata is read only when a best performance exists.
\<close>

definition optimization_step ::
  "step_env \<Rightarrow> 'ps OptimizationRunner \<times> world \<Rightarrow>
     (error + Optimae option) \<times> 'ps OptimizationRunner \<times> world" where
  "optimization_step e rw =
     (case rw of (r, w) \<Rightarrow>
       (case plugin r of
          None \<Rightarrow> (Inl AssertionError, r, w)
        | Some p \<Rightarrow>
            (case optimize p (plugin_state p) (current_best_params r)
                    (current_best_performance r) of
               (NoImprovementError, ps') \<Rightarrow>
                 (Inr None, r\<lparr>plugin := Some (p\<lparr>plugin_state := ps'\<rparr>)\<rparr>, w)
             | (OtherException, ps') \<Rightarrow>
                 (Inr None, r\<lparr>plugin := Some (p\<lparr>plugin_state := ps'\<rparr>)\<rparr>,
                  log_to w (LogException ''Optimization step failed''))
             | (Returned new_params new_performance, ps') \<Rightarrow>
                 (let r1 = r\<lparr>plugin := Some (p\<lparr>plugin_state := ps'\<rparr>)\<rparr>;
                      rejected =
                        (case current_best_performance r1 of
                           None \<Rightarrow> False
                         | Some best \<Rightarrow>
                             (let metadata = get_domain_metadata p ps';
                                  higher_is_better =
                                    dict_get metadata ''higher_is_better'' (PBool True)
                              in if truthy higher_is_better \<and>
                                    float_le new_performance best
                                 then True
                                 else if \<not> truthy higher_is_better \<and>
                                         float_ge new_performance best
                                 then True
                                 else False))
                  in if rejected then (Inr None, r1, w)
                     else
                       (let increment =
                              (case current_best_performance r1 of
                                 None \<Rightarrow> Finite 0
                               | Some best \<Rightarrow> float_abs (float_sub new_performance best));
                            optimae =
                              \<lparr>optimae_id = new_id e,
                               optimae_domain_id = domain_id (config r1),
                               optimizer_id = peer_id r1,
                               parameters = new_params,
                               reported_performance = new_performance,
                               performance_increment = increment\<rparr>;
                            r2 = r1\<lparr>current_best_params := Some new_params,
                                    current_best_performance := Some new_performance,
                                    improvements_found := improvements_found r1 + 1\<rparr>;
                            submitted = submit_optimae (post_result e) r2 optimae w;
                            w3 = log_to (snd submitted) (LogInfo ''Improvement found!'')
                        in (Inr (Some optimae), r2, w3))))))"

text \<open>\<^verbatim>\<open>run_single_step\<close>\<close>

definition run_single_step ::
  "step_env \<Rightarrow> 'ps OptimizationRunner \<times> world \<Rightarrow>
     (error + Optimae option) \<times> 'ps OptimizationRunner \<times> world" where
  "run_single_step e rw =
     (case plugin (fst rw) of
        None \<Rightarrow> (Inl (RuntimeError ''Plugin not loaded''), rw)
      | Some p \<Rightarrow> optimization_step e rw)"

subsection \<open>The loop\<close>

text \<open>
  \<^verbatim>\<open>start\<close> and \<^verbatim>\<open>stop\<close>. The loop suspends only inside a step's request and in the
  sleep after it, so a \<^verbatim>\<open>stop()\<close> from outside takes effect between two iterations: the
  schedule \<open>stop_requested\<close> says after which iterations (counted from the start of the
  call) the flag has been cleared. The loop may run forever; it is given fuel, one unit for
  each test of the loop condition, and \<open>None\<close> says that the fuel ran out before the loop
  was left.
\<close>

record loop_env =
  step_envs :: "nat \<Rightarrow> step_env"
  stop_requested :: "nat \<Rightarrow> bool"

definition stop :: "'ps OptimizationRunner \<Rightarrow> 'ps OptimizationRunner" where
  "stop r = r\<lparr>running := False\<rparr>"

text \<open>\<^verbatim>\<open>self.config.max_steps and self._steps_completed >= self.config.max_steps\<close>:
  \<^verbatim>\<open>None\<close> and \<^verbatim>\<open>0\<close> are both false in Python.\<close>

definition max_steps_reached :: "'ps OptimizationRunner \<Rightarrow> bool" where
  "max_steps_reached r =
     (case max_steps (config r) of
        None \<Rightarrow> False
      | Some m \<Rightarrow> m \<noteq> 0 \<and> int (steps_completed r) \<ge> m)"

fun start_loop ::
  "loop_env \<Rightarrow> nat \<Rightarrow> nat \<Rightarrow> 'ps OptimizationRunner \<times> world \<Rightarrow>
     ((error + unit) \<times> 'ps OptimizationRunner \<times> world) option" where
  "start_loop env k 0 rw = None"
| "start_loop env k (Suc fuel) rw =
     (if \<not> running (fst rw) then Some (Inr (), rw)
      else if max_steps_reached (fst rw)
      then Some (Inr (), fst rw, log_to (snd rw) (LogInfo ''Max steps reached''))
      else
        (case optimization_step (step_envs env k) rw of
           (Inl err, r', w') \<Rightarrow> Some (Inl err, r', w')
         | (Inr res, r', w') \<Rightarrow>
             start_loop env (Suc k) fuel
               (r'\<lparr>steps_completed := steps_completed r' + 1,
                   running := (if stop_requested env k then False else running r')\<rparr>,
                w')))"

text \<open>The \<^verbatim>\<open>finally\<close> clause: \<^verbatim>\<open>if self._session: await self._session.close()\<close>\<close>

definition close_session :: "'ps OptimizationRunner \<Rightarrow> 'ps OptimizationRunner" where
  "close_session r =
     (case session r of None \<Rightarrow> r | Some s \<Rightarrow> r\<lparr>session := Some SessionClosed\<rparr>)"

definition start ::
  "loop_env \<Rightarrow> nat \<Rightarrow> 'ps OptimizationRunner \<times> world \<Rightarrow>
     ((error + unit) \<times> 'ps OptimizationRunner \<times> world) option" where
  "start env fuel rw =
     (case rw of (r, w) \<Rightarrow>
       (case plugin r of
          None \<Rightarrow>
            Some (Inl (RuntimeError
                   ''Plugin not loaded - call load_plugin() or set_plugin() first''), r, w)
        | Some p \<Rightarrow>
            (let r1 = r\<lparr>session := Some SessionOpen, running := True\<rparr>;
                 w1 = log_to w (LogInfo ''Optimizer starting'')
             in (case start_loop env 0 fuel (r1, w1) of
                   None \<Rightarrow> None
                 | Some (res, r', w') \<Rightarrow> Some (res, close_session r', w')))))"

subsection \<open>Operations and reachable states\<close>

text \<open>The methods of the runner as one type of operations; a state is reachable when a
  sequence of them leads to it from a freshly constructed runner. A \<^verbatim>\<open>start\<close> that has not
  returned within its fuel reaches nothing.\<close>

datatype 'ps operation =
    Op_load_plugin "string \<rightharpoonup> 'ps OptimizationPlugin"
  | Op_set_plugin "'ps OptimizationPlugin"
  | Op_start loop_env nat
  | Op_stop
  | Op_run_single_step step_env
  | Op_optimization_step step_env
  | Op_submit_optimae post_outcome Optimae

fun apply_operation ::
  "'ps operation \<Rightarrow> 'ps OptimizationRunner \<times> world \<Rightarrow>
     ('ps OptimizationRunner \<times> world) option" where
  "apply_operation (Op_load_plugin registry) rw = Some (snd (load_plugin registry rw))"
| "apply_operation (Op_set_plugin p) rw = Some (set_plugin p (fst rw), snd rw)"
| "apply_operation (Op_start env fuel) rw = map_option snd (start env fuel rw)"
| "apply_operation Op_stop rw = Some (stop (fst rw), snd rw)"
| "apply_operation (Op_run_single_step e) rw = Some (snd (run_single_step e rw))"
| "apply_operation (Op_optimization_step e) rw = Some (snd (optimization_step e rw))"
| "apply_operation (Op_submit_optimae net optimae) rw =
     Some (fst rw, snd (submit_optimae net (fst rw) optimae (snd rw)))"

inductive reachable :: "'ps OptimizationRunner \<times> world \<Rightarrow> bool" where
  reachable_init: "reachable (OptimizationRunner_init cfg identity generated, w)"
| reachable_step:
    "reachable rw \<Longrightarrow> apply_operation opn rw = Some rw' \<Longrightarrow> reachable rw'"

subsection \<open>Example inputs\<close>

text \<open>The doubles that Python reads from the literals 0.55, 0.6, 0.4, 0.1 and 0.2.\<close>

definition double_0_55 :: pyfloat where
  "double_0_55 = Finite (2476979795053773 / 2 ^ 52)"

definition double_0_6 :: pyfloat where
  "double_0_6 = Finite (5404319552844595 / 2 ^ 53)"

definition double_0_4 :: pyfloat where
  "double_0_4 = Finite (3602879701896397 / 2 ^ 53)"

definition double_0_1 :: pyfloat where
  "double_0_1 = Finite (3602879701896397 / 2 ^ 55)"

definition double_0_2 :: pyfloat where
  "double_0_2 = Finite (3602879701896397 / 2 ^ 54)"

text \<open>A plugin that plays a script of results, one for each call, with fixed metadata.\<close>

definition ScriptedPlugin ::
  "pydict \<Rightarrow> optimize_result list \<Rightarrow> (optimize_result list) OptimizationPlugin" where
  "ScriptedPlugin metadata script =
     \<lparr>plugin_state = script,
      configure = (\<lambda>s c. Some s),
      optimize = (\<lambda>s best_params best_performance.
         (case s of [] \<Rightarrow> (NoImprovementError, []) | x # xs \<Rightarrow> (x, xs))),
      get_domain_metadata = (\<lambda>s. metadata)\<rparr>"

text \<open>
  The plugins and the runner of \<^verbatim>\<open>tests/test_runner.py\<close>. \<^verbatim>\<open>MockOptimizer\<close> is given by
  its metadata and its first two answers: \<^verbatim>\<open>0.5 + 1 * 0.05\<close> is the double 0.55 and
  \<^verbatim>\<open>0.5 + 2 * 0.05\<close> the double 0.6, as the tests assert.
\<close>

definition accuracy_metadata :: pydict where
  "accuracy_metadata =
     [''performance_metric'' \<mapsto> PStr ''accuracy'', ''higher_is_better'' \<mapsto> PBool True]"

definition MockOptimizer :: "(optimize_result list) OptimizationPlugin" where
  "MockOptimizer =
     ScriptedPlugin accuracy_metadata
       [Returned [''w'' \<mapsto> PInt 1, ''bias'' \<mapsto> PFloat double_0_1] double_0_55,
        Returned [''w'' \<mapsto> PInt 2, ''bias'' \<mapsto> PFloat double_0_2] double_0_6]"

definition MockNoImprovementOptimizer :: "unit OptimizationPlugin" where
  "MockNoImprovementOptimizer =
     \<lparr>plugin_state = (),
      configure = (\<lambda>s c. Some s),
      optimize = (\<lambda>s best_params best_performance.
         (Returned [''w'' \<mapsto> PInt 1] (Finite (1 / 2)), s)),
      get_domain_metadata = (\<lambda>s. accuracy_metadata)\<rparr>"

definition test_config :: OptimizerConfig where
  "test_config =
     \<lparr>domain_id = ''test-domain'',
      plugin_name = ''mock'',
      plugin_config = Map.empty,
      node_endpoint = ''localhost:9999'',
      optimization_interval = Finite 1,
      max_steps = None\<rparr>"

definition new_runner :: "'ps OptimizationRunner" where
  "new_runner = OptimizationRunner_init test_config None ''peer-0''"

definition make_runner :: "(optimize_result list) OptimizationRunner" where
  "make_runner = set_plugin MockOptimizer new_runner"

definition empty_world :: world where
  "empty_world = \<lparr>requests = [], logs = []\<rparr>"

definition env_status :: "nat \<Rightarrow> step_env" where
  "env_status status = \<lparr>new_id = ''optimae-1'', post_result = Response status\<rparr>"

text \<open>A loop environment whose node answers every request with the same status and in
  which \<^verbatim>\<open>stop()\<close> is called during the iterations of the given list.\<close>

definition loop_env_of :: "nat \<Rightarrow> nat list \<Rightarrow> loop_env" where
  "loop_env_of status stops =
     \<lparr>step_envs = (\<lambda>k. env_status status), stop_requested = (\<lambda>k. k \<in> set stops)\<rparr>"

definition started_runner :: "(optimize_result list) OptimizationRunner" where
  "started_runner = make_runner\<lparr>session := Some SessionOpen, running := True\<rparr>"

text \<open>The runner of \<^verbatim>\<open>test_no_improvement_returns_none\<close> after its first step.\<close>

definition runner_after_first :: "unit OptimizationRunner" where
  "runner_after_first =
     (set_plugin MockNoImprovementOptimizer new_runner)
       \<lparr>current_best_params := Some [''w'' \<mapsto> PInt 1],
        current_best_performance := Some (Finite (1 / 2)),
        improvements_found := 1\<rparr>"

text \<open>A runner that holds a best performance already, with a scripted plugin.\<close>

definition runner_with_best ::
  "pydict \<Rightarrow> optimize_result list \<Rightarrow> pyfloat \<Rightarrow>
     (optimize_result list) OptimizationRunner" where
  "runner_with_best metadata script best =
     (set_plugin (ScriptedPlugin metadata script) new_runner)
       \<lparr>current_best_params := Some [''w'' \<mapsto> PInt 0],
        current_best_performance := Some best,
        improvements_found := 1\<rparr>"

text \<open>The record the first step of \<^verbatim>\<open>MockOptimizer\<close> creates.\<close>

definition example_optimae :: Optimae where
  "example_optimae =
     \<lparr>optimae_id = ''optimae-1'',
      optimae_domain_id = ''test-domain'',
      optimizer_id = ''peer-0'',
      parameters = [''w'' \<mapsto> PInt 1, ''bias'' \<mapsto> PFloat double_0_1],
      reported_performance = double_0_55,
      performance_increment = Finite 0\<rparr>"

text \<open>The test runner configured with \<^verbatim>\<open>max_steps=0\<close>.\<close>

definition zero_max_runner :: "(optimize_result list) OptimizationRunner" where
  "zero_max_runner =
     set_plugin MockOptimizer
       (OptimizationRunner_init (test_config\<lparr>max_steps := Some 0\<rparr>) None ''peer-0'')"

subsection \<open>The pair of current-best fields\<close>

text \<open>Between two states of the runner, the two current-best fields are either both as
  they were or both set.\<close>

definition best_pair_kept_or_set ::
  "'ps OptimizationRunner \<Rightarrow> 'ps OptimizationRunner \<Rightarrow> bool" where
  "best_pair_kept_or_set r r' =
     ((current_best_params r' = current_best_params r \<and>
       current_best_performance r' = current_best_performance r)
      \<or> (current_best_params r' \<noteq> None \<and> current_best_performance r' \<noteq> None))"

section \<open>Properties of the float operations\<close>

text \<open>The exponent that \<open>binade\<close> finds is the one of the value.\<close>

lemma pow2_add1: "pow2 (k + 1) = 2 * pow2 k"
proof (cases "0 \<le> k")
  case True
  then show ?thesis by (simp add: pow2_def nat_add_distrib)
next
  case False
  then have "k < 0" by simp
  then obtain n where k: "k = - int (Suc n)" by (auto dest: negD)
  have "nat (int n + 1) = Suc n" by simp
  with k show ?thesis by (auto simp: pow2_def)
qed

lemma binade_up_bounds:
  "1 \<le> x \<Longrightarrow> pow2 (binade_up x) \<le> x \<and> x < pow2 (binade_up x + 1) \<and> 0 \<le> binade_up x"
proof (induction x rule: binade_up.induct)
  case (1 x)
  show ?case
  proof (cases "x < 2")
    case True
    then have "binade_up x = 0" by (subst binade_up.simps) simp
    with True "1.prems" show ?thesis by (simp add: pow2_def)
  next
    case False
    then have "1 \<le> x / 2" by simp
    with "1.IH" False
    have ih: "pow2 (binade_up (x / 2)) \<le> x / 2" "x / 2 < pow2 (binade_up (x / 2) + 1)"
      "0 \<le> binade_up (x / 2)"
      by auto
    have s: "binade_up x = binade_up (x / 2) + 1"
      using False by (subst binade_up.simps) simp
    define k where "k = binade_up (x / 2)"
    have a: "pow2 (k + 1) = 2 * pow2 k" by (rule pow2_add1)
    have b: "pow2 (k + 1 + 1) = 2 * pow2 (k + 1)" by (rule pow2_add1)
    from ih a b have "pow2 (k + 1) \<le> x" "x < pow2 (k + 1 + 1)" "0 \<le> k + 1"
      unfolding k_def by linarith+
    then show ?thesis unfolding s k_def by blast
  qed
qed

lemma binade_down_bounds:
  "0 < x \<Longrightarrow> x < 1 \<Longrightarrow>
     pow2 (binade_down x) \<le> x \<and> x < pow2 (binade_down x + 1) \<and> binade_down x < 0"
proof (induction x rule: binade_down.induct)
  case (1 x)
  have s: "binade_down x = binade_down (2 * x) - 1"
    using "1.prems" by (subst binade_down.simps) simp
  have p: "pow2 k = 2 * pow2 (k - 1)" for k
    using pow2_add1 [of "k - 1"] by simp
  show ?case
  proof (cases "2 * x < 1")
    case False
    then have "binade_down (2 * x) = 0" by (subst binade_down.simps) simp
    with s "1.prems" False show ?thesis by (simp add: pow2_def)
  next
    case True
    with "1.IH" "1.prems"
    have ih: "pow2 (binade_down (2 * x)) \<le> 2 * x" "2 * x < pow2 (binade_down (2 * x) + 1)"
      "binade_down (2 * x) < 0"
      by auto
    from ih(1) p [of "binade_down (2 * x)"] have "pow2 (binade_down (2 * x) - 1) \<le> x"
      by simp
    moreover from ih(2) pow2_add1 [of "binade_down (2 * x)"]
    have "x < pow2 (binade_down (2 * x))" by simp
    ultimately show ?thesis using ih(3) unfolding s by simp
  qed
qed

lemma binade_bounds:
  assumes "x \<noteq> 0"
  shows "pow2 (binade x) \<le> \<bar>x\<bar> \<and> \<bar>x\<bar> < pow2 (binade x + 1)"
proof (cases "1 \<le> \<bar>x\<bar>")
  case True
  with binade_up_bounds [of "\<bar>x\<bar>"] show ?thesis by (simp add: binade_def)
next
  case False
  with assms binade_down_bounds [of "\<bar>x\<bar>"] show ?thesis by (simp add: binade_def)
qed

text \<open>The literals denote the doubles above, and two subtractions: 0.6 - 0.55 is
  0.04999999999999993 (exactly representable), and 1.0 - 2^-60 rounds to 1.0.\<close>

lemma literals_rounded:
  "round_binary64 0.55 = double_0_55" "round_binary64 0.6 = double_0_6"
  "round_binary64 0.4 = double_0_4" "round_binary64 0.1 = double_0_1"
  "round_binary64 0.2 = double_0_2"
  by (simp_all add: round_binary64_def binade_def binade_up.simps binade_down.simps
        pow2_def round_half_even_def Let_def
        double_0_55_def double_0_6_def double_0_4_def double_0_1_def double_0_2_def)

lemma float_sub_0_6_0_55:
  "float_sub double_0_6 double_0_55 = Finite (450359962737049 / 2 ^ 53)"
  by (simp add: round_binary64_def binade_def binade_up.simps binade_down.simps
        pow2_def round_half_even_def Let_def double_0_55_def double_0_6_def)

lemma float_sub_rounds:
  "float_sub (Finite 1) (Finite (1 / 2 ^ 60)) = Finite 1"
  by (simp add: round_binary64_def binade_def binade_up.simps binade_down.simps
        pow2_def round_half_even_def Let_def)

text \<open>Without NaN, \<^verbatim>\<open>not (x <= y)\<close> is \<^verbatim>\<open>y < x\<close>; with NaN it holds while \<^verbatim>\<open>y < x\<close> does
  not.\<close>

lemma not_float_le_iff:
  "x \<noteq> NaN \<Longrightarrow> y \<noteq> NaN \<Longrightarrow> (\<not> float_le x y) = float_lt y x"
  by (cases x; cases y) auto

lemma float_eq_le: "float_eq x y \<Longrightarrow> float_le x y \<and> float_le y x"
  by (cases x; cases y) auto

section \<open>Properties of one step\<close>

lemmas example_defs =
  make_runner_def new_runner_def set_plugin_def OptimizationRunner_init_def
  MockOptimizer_def MockNoImprovementOptimizer_def ScriptedPlugin_def test_config_def
  accuracy_metadata_def empty_world_def env_status_def loop_env_of_def

lemmas double_defs =
  double_0_55_def double_0_6_def double_0_4_def double_0_1_def double_0_2_def

subsection \<open>What a step does, by the plugin's answer\<close>

lemma step_NoImprovement:
  assumes "plugin r = Some p"
    and "optimize p (plugin_state p) (current_best_params r) (current_best_performance r)
           = (NoImprovementError, ps')"
  shows "optimization_step e (r, w) =
           (Inr None, r\<lparr>plugin := Some (p\<lparr>plugin_state := ps'\<rparr>)\<rparr>, w)"
  using assms by (simp add: optimization_step_def)

lemma step_OtherException:
  assumes "plugin r = Some p"
    and "optimize p (plugin_state p) (current_best_params r) (current_best_performance r)
           = (OtherException, ps')"
  shows "optimization_step e (r, w) =
           (Inr None, r\<lparr>plugin := Some (p\<lparr>plugin_state := ps'\<rparr>)\<rparr>,
            log_to w (LogException ''Optimization step failed''))"
  using assms by (simp add: optimization_step_def)

lemma step_Returned_rejected:
  assumes "plugin r = Some p"
    and "optimize p (plugin_state p) (current_best_params r) (current_best_performance r)
           = (Returned np nperf, ps')"
    and "current_best_performance r = Some best"
    and "if truthy (dict_get (get_domain_metadata p ps') ''higher_is_better'' (PBool True))
         then float_le nperf best else float_ge nperf best"
  shows "optimization_step e (r, w) =
           (Inr None, r\<lparr>plugin := Some (p\<lparr>plugin_state := ps'\<rparr>)\<rparr>, w)"
  using assms by (auto simp: optimization_step_def Let_def split: if_splits)

lemma step_Returned_accepted:
  assumes "plugin r = Some p"
    and "optimize p (plugin_state p) (current_best_params r) (current_best_performance r)
           = (Returned np nperf, ps')"
    and "case current_best_performance r of
           None \<Rightarrow> True
         | Some best \<Rightarrow>
             if truthy (dict_get (get_domain_metadata p ps') ''higher_is_better'' (PBool True))
             then \<not> float_le nperf best else \<not> float_ge nperf best"
  shows "optimization_step e (r, w) =
     (let optimae =
            \<lparr>optimae_id = new_id e,
             optimae_domain_id = domain_id (config r),
             optimizer_id = peer_id r,
             parameters = np,
             reported_performance = nperf,
             performance_increment =
               (case current_best_performance r of
                  None \<Rightarrow> Finite 0
                | Some best \<Rightarrow> float_abs (float_sub nperf best))\<rparr>;
          r2 = r\<lparr>plugin := Some (p\<lparr>plugin_state := ps'\<rparr>),
                 current_best_params := Some np,
                 current_best_performance := Some nperf,
                 improvements_found := improvements_found r + 1\<rparr>
      in (Inr (Some optimae), r2,
          log_to (snd (submit_optimae (post_result e) r2 optimae w))
            (LogInfo ''Improvement found!'')))"
  using assms by (auto simp: optimization_step_def Let_def split: option.splits if_splits)

text \<open>Acceptance and rejection of a returned candidate, by the two tests of the code,
  for every float, NaN included.\<close>

lemma step_accepted_iff:
  assumes "plugin r = Some p"
    and "optimize p (plugin_state p) (current_best_params r) (current_best_performance r)
           = (Returned np nperf, ps')"
  shows "(\<exists>opt. fst (optimization_step e (r, w)) = Inr (Some opt)) =
           (case current_best_performance r of
              None \<Rightarrow> True
            | Some best \<Rightarrow>
                if truthy (dict_get (get_domain_metadata p ps') ''higher_is_better''
                     (PBool True))
                then \<not> float_le nperf best else \<not> float_ge nperf best)"
  using assms by (auto simp: optimization_step_def Let_def split: option.splits if_splits)

lemma step_none_iff:
  assumes "plugin r = Some p"
    and "optimize p (plugin_state p) (current_best_params r) (current_best_performance r)
           = (Returned np nperf, ps')"
  shows "(fst (optimization_step e (r, w)) = Inr None) =
           (case current_best_performance r of
              None \<Rightarrow> False
            | Some best \<Rightarrow>
                if truthy (dict_get (get_domain_metadata p ps') ''higher_is_better''
                     (PBool True))
                then float_le nperf best else float_ge nperf best)"
  using assms by (auto simp: optimization_step_def Let_def split: option.splits if_splits)

lemma optimization_step_frame:
  assumes "plugin r = Some p"
  shows "\<exists>res r' w'. optimization_step e (r, w) = (Inr res, r', w')
           \<and> config r' = config r \<and> running r' = running r \<and> session r' = session r
           \<and> steps_completed r' = steps_completed r \<and> plugin r' \<noteq> None"
  using assms
  by (auto simp: optimization_step_def Let_def split: prod.splits optimize_result.splits)

text \<open>Scenario C of the tests: the fixture is the state the first step leaves.\<close>

lemma runner_after_first_step:
  "fst (snd (optimization_step (env_status 200)
       (set_plugin MockNoImprovementOptimizer new_runner, empty_world))) = runner_after_first"
  by (simp add: optimization_step_def Let_def runner_after_first_def example_defs)

subsection \<open>Acceptance\<close>

text \<open>
  Claim C1, for performances that are not NaN. When the plugin returns a candidate and no
  current best performance exists, the step accepts it (returns a record). When a current
  best exists and neither it nor the candidate's performance is NaN, the step accepts the
  candidate exactly when the new performance is strictly greater (higher-is-better domain)
  or strictly smaller (otherwise) than the best, and returns none in the other cases. A
  performance equal to the best is never accepted.
\<close>

theorem C1_accepted_iff_strict_improvement:
  assumes "plugin r = Some p"
    and "optimize p (plugin_state p) (current_best_params r) (current_best_performance r)
           = (Returned np nperf, ps')"
  shows "(current_best_performance r = None \<longrightarrow>
            (\<exists>opt. fst (optimization_step e (r, w)) = Inr (Some opt)))
         \<and> (\<forall>best. current_best_performance r = Some best \<and> best \<noteq> NaN \<and> nperf \<noteq> NaN \<longrightarrow>
               (\<exists>opt. fst (optimization_step e (r, w)) = Inr (Some opt)) =
                 (if truthy (dict_get (get_domain_metadata p ps') ''higher_is_better''
                       (PBool True))
                  then float_lt best nperf else float_lt nperf best)
               \<and> (fst (optimization_step e (r, w)) = Inr None) =
                 (if truthy (dict_get (get_domain_metadata p ps') ''higher_is_better''
                       (PBool True))
                  then float_le nperf best else float_le best nperf))
         \<and> (\<forall>best. current_best_performance r = Some best \<and> float_eq nperf best \<longrightarrow>
               fst (optimization_step e (r, w)) = Inr None)"
proof (intro conjI allI impI)
  assume "current_best_performance r = None"
  with step_accepted_iff [OF assms, of e w]
  show "\<exists>opt. fst (optimization_step e (r, w)) = Inr (Some opt)" by simp
next
  fix best
  assume a: "current_best_performance r = Some best \<and> best \<noteq> NaN \<and> nperf \<noteq> NaN"
  then have lt: "(\<not> float_le nperf best) = float_lt best nperf"
    "(\<not> float_ge nperf best) = float_lt nperf best"
    by (simp_all add: not_float_le_iff float_ge_def)
  from step_accepted_iff [OF assms, of e w] a lt
  show "(\<exists>opt. fst (optimization_step e (r, w)) = Inr (Some opt)) =
          (if truthy (dict_get (get_domain_metadata p ps') ''higher_is_better'' (PBool True))
           then float_lt best nperf else float_lt nperf best)"
    by simp
  from step_none_iff [OF assms, of e w] a
  show "(fst (optimization_step e (r, w)) = Inr None) =
          (if truthy (dict_get (get_domain_metadata p ps') ''higher_is_better'' (PBool True))
           then float_le nperf best else float_le best nperf)"
    by (simp add: float_ge_def)
next
  fix best
  assume a: "current_best_performance r = Some best \<and> float_eq nperf best"
  then have "float_le nperf best" "float_ge nperf best"
    by (auto simp: float_ge_def dest: float_eq_le)
  with step_none_iff [OF assms, of e w] a
  show "fst (optimization_step e (r, w)) = Inr None" by simp
qed

text \<open>A lower-is-better domain with best 0.5: the candidate 0.4 is accepted.\<close>

theorem C1_witness:
  "plugin (runner_with_best [''higher_is_better'' \<mapsto> PBool False]
             [Returned [''w'' \<mapsto> PInt 1] double_0_4] (Finite (1 / 2)))
     = Some (ScriptedPlugin [''higher_is_better'' \<mapsto> PBool False]
               [Returned [''w'' \<mapsto> PInt 1] double_0_4])
   \<and> optimize (ScriptedPlugin [''higher_is_better'' \<mapsto> PBool False]
                 [Returned [''w'' \<mapsto> PInt 1] double_0_4])
        [Returned [''w'' \<mapsto> PInt 1] double_0_4] (Some [''w'' \<mapsto> PInt 0])
        (Some (Finite (1 / 2)))
     = (Returned [''w'' \<mapsto> PInt 1] double_0_4, [])
   \<and> current_best_performance
        (runner_with_best [''higher_is_better'' \<mapsto> PBool False]
           [Returned [''w'' \<mapsto> PInt 1] double_0_4] (Finite (1 / 2)))
     = Some (Finite (1 / 2))
   \<and> Finite (1 / 2) \<noteq> NaN \<and> double_0_4 \<noteq> NaN
   \<and> float_lt double_0_4 (Finite (1 / 2))
   \<and> (\<exists>opt. fst (optimization_step (env_status 200)
         (runner_with_best [''higher_is_better'' \<mapsto> PBool False]
            [Returned [''w'' \<mapsto> PInt 1] double_0_4] (Finite (1 / 2)),
          empty_world)) = Inr (Some opt))"
  using C1_accepted_iff_strict_improvement
    [of "runner_with_best [''higher_is_better'' \<mapsto> PBool False]
           [Returned [''w'' \<mapsto> PInt 1] double_0_4] (Finite (1 / 2))"
        "ScriptedPlugin [''higher_is_better'' \<mapsto> PBool False]
           [Returned [''w'' \<mapsto> PInt 1] double_0_4]"
        "[''w'' \<mapsto> PInt 1]" double_0_4 "[]" "env_status 200" empty_world]
  by (simp add: runner_with_best_def example_defs dict_get_def double_defs)

text \<open>
  A higher-is-better domain with best 0.5 and a candidate whose performance is NaN: the
  candidate is accepted, and its performance is not greater than the best.
\<close>

theorem C1_counterexample:
  "current_best_performance
     (runner_with_best [''higher_is_better'' \<mapsto> PBool True]
        [Returned [''w'' \<mapsto> PInt 1] NaN] (Finite (1 / 2)))
     = Some (Finite (1 / 2))
   \<and> truthy (dict_get [''higher_is_better'' \<mapsto> PBool True] ''higher_is_better'' (PBool True))
   \<and> (\<exists>opt. fst (optimization_step (env_status 200)
         (runner_with_best [''higher_is_better'' \<mapsto> PBool True]
            [Returned [''w'' \<mapsto> PInt 1] NaN] (Finite (1 / 2)),
          empty_world)) = Inr (Some opt))
   \<and> \<not> float_lt (Finite (1 / 2)) NaN"
  by (simp add: optimization_step_def Let_def runner_with_best_def example_defs dict_get_def)

text \<open>
  Claim C10, for performances that are not NaN. When a current best exists and the
  plugin's metadata has no key \<^verbatim>\<open>higher_is_better\<close>, the lookup yields \<^verbatim>\<open>True\<close>; when neither
  the best nor the candidate's performance is NaN, the candidate is then accepted exactly
  when its performance is strictly greater than the current best.
\<close>

theorem C10_missing_key_defaults_to_higher_is_better:
  assumes "plugin r = Some p"
    and "optimize p (plugin_state p) (current_best_params r) (current_best_performance r)
           = (Returned np nperf, ps')"
    and "current_best_performance r = Some best"
    and "get_domain_metadata p ps' ''higher_is_better'' = None"
    and "best \<noteq> NaN" and "nperf \<noteq> NaN"
  shows "dict_get (get_domain_metadata p ps') ''higher_is_better'' (PBool True) = PBool True
         \<and> (\<exists>opt. fst (optimization_step e (r, w)) = Inr (Some opt)) = float_lt best nperf"
proof -
  from assms(4)
  have d: "dict_get (get_domain_metadata p ps') ''higher_is_better'' (PBool True) = PBool True"
    by (simp add: dict_get_def)
  have "(\<not> float_le nperf best) = float_lt best nperf"
    by (rule not_float_le_iff [OF assms(6) assms(5)])
  with step_accepted_iff [OF assms(1,2), of e w] assms(3) d show ?thesis by simp
qed

text \<open>Empty metadata, best 0.5: the candidate 0.6 is accepted.\<close>

theorem C10_witness:
  "plugin (runner_with_best Map.empty [Returned [''w'' \<mapsto> PInt 1] double_0_6] (Finite (1 / 2)))
      = Some (ScriptedPlugin Map.empty [Returned [''w'' \<mapsto> PInt 1] double_0_6])
   \<and> optimize (ScriptedPlugin Map.empty [Returned [''w'' \<mapsto> PInt 1] double_0_6])
        [Returned [''w'' \<mapsto> PInt 1] double_0_6] (Some [''w'' \<mapsto> PInt 0])
        (Some (Finite (1 / 2)))
      = (Returned [''w'' \<mapsto> PInt 1] double_0_6, [])
   \<and> current_best_performance
        (runner_with_best Map.empty [Returned [''w'' \<mapsto> PInt 1] double_0_6] (Finite (1 / 2)))
      = Some (Finite (1 / 2))
   \<and> get_domain_metadata (ScriptedPlugin Map.empty [Returned [''w'' \<mapsto> PInt 1] double_0_6]) []
        ''higher_is_better'' = None
   \<and> Finite (1 / 2) \<noteq> NaN \<and> double_0_6 \<noteq> NaN
   \<and> float_lt (Finite (1 / 2)) double_0_6
   \<and> (\<exists>opt. fst (optimization_step (env_status 200)
         (runner_with_best Map.empty [Returned [''w'' \<mapsto> PInt 1] double_0_6] (Finite (1 / 2)),
          empty_world))
        = Inr (Some opt))"
proof -
  let ?p = "ScriptedPlugin Map.empty [Returned [''w'' \<mapsto> PInt 1] double_0_6]"
  let ?r = "runner_with_best Map.empty [Returned [''w'' \<mapsto> PInt 1] double_0_6] (Finite (1 / 2))"
  have p: "plugin ?r = Some ?p"
    by (simp add: runner_with_best_def example_defs)
  have o: "optimize ?p (plugin_state ?p) (current_best_params ?r) (current_best_performance ?r)
      = (Returned [''w'' \<mapsto> PInt 1] double_0_6, [])"
    by (simp add: example_defs)
  have b: "current_best_performance ?r = Some (Finite (1 / 2))"
    by (simp add: runner_with_best_def example_defs)
  have m: "get_domain_metadata ?p [] ''higher_is_better'' = None"
    by (simp add: example_defs)
  have n: "Finite (1 / 2) \<noteq> NaN" "double_0_6 \<noteq> NaN"
    by (simp_all add: double_defs)
  have l: "float_lt (Finite (1 / 2)) double_0_6"
    by (simp add: double_defs)
  have o': "optimize ?p [Returned [''w'' \<mapsto> PInt 1] double_0_6] (Some [''w'' \<mapsto> PInt 0])
        (Some (Finite (1 / 2))) = (Returned [''w'' \<mapsto> PInt 1] double_0_6, [])"
    by (simp add: example_defs)
  from C10_missing_key_defaults_to_higher_is_better
         [OF p o b m n, of "env_status 200" empty_world] p o' b m n l
  show ?thesis by simp
qed

text \<open>
  Empty metadata and a best performance that is NaN: the candidate 0.25 is accepted, and
  its performance is not greater than the best.
\<close>

theorem C10_counterexample:
  "current_best_performance
     (runner_with_best Map.empty [Returned [''w'' \<mapsto> PInt 1] (Finite (1 / 4))] NaN) = Some NaN
   \<and> get_domain_metadata
        (ScriptedPlugin Map.empty [Returned [''w'' \<mapsto> PInt 1] (Finite (1 / 4))]) []
        ''higher_is_better'' = None
   \<and> (\<exists>opt. fst (optimization_step (env_status 200)
         (runner_with_best Map.empty [Returned [''w'' \<mapsto> PInt 1] (Finite (1 / 4))] NaN,
          empty_world)) = Inr (Some opt))
   \<and> \<not> float_lt NaN (Finite (1 / 4))"
  by (simp add: optimization_step_def Let_def runner_with_best_def example_defs dict_get_def)

subsection \<open>The record of an accepted candidate\<close>

text \<open>
  Claim C3. The record of an accepted candidate reports the candidate's performance, and
  its performance increment is 0.0 when there was no prior best and otherwise
  \<^verbatim>\<open>abs(new - previous best)\<close>, the float subtraction and absolute value of the new
  performance and the best held before the step.
\<close>

theorem C3_performance_increment:
  assumes "plugin r = Some p"
    and "optimize p (plugin_state p) (current_best_params r) (current_best_performance r)
           = (Returned np nperf, ps')"
    and "fst (optimization_step e (r, w)) = Inr (Some opt)"
  shows "reported_performance opt = nperf \<and>
         performance_increment opt =
           (case current_best_performance r of
              None \<Rightarrow> Finite 0
            | Some previous_best \<Rightarrow> float_abs (float_sub nperf previous_best))"
  using assms
  by (auto simp: optimization_step_def Let_def split: option.splits if_splits)

text \<open>Scenario B of the tests: best 0.55, candidate 0.6; the increment is the double
  0.04999999999999993.\<close>

theorem C3_witness:
  "plugin (runner_with_best accuracy_metadata [Returned [''w'' \<mapsto> PInt 2] double_0_6]
             double_0_55)
     = Some (ScriptedPlugin accuracy_metadata [Returned [''w'' \<mapsto> PInt 2] double_0_6])
   \<and> optimize (ScriptedPlugin accuracy_metadata [Returned [''w'' \<mapsto> PInt 2] double_0_6])
        [Returned [''w'' \<mapsto> PInt 2] double_0_6] (Some [''w'' \<mapsto> PInt 0]) (Some double_0_55)
     = (Returned [''w'' \<mapsto> PInt 2] double_0_6, [])
   \<and> (\<exists>opt. fst (optimization_step (env_status 200)
                (runner_with_best accuracy_metadata [Returned [''w'' \<mapsto> PInt 2] double_0_6]
                   double_0_55, empty_world))
               = Inr (Some opt)
         \<and> reported_performance opt = double_0_6
         \<and> performance_increment opt = Finite (450359962737049 / 2 ^ 53))"
proof -
  let ?p = "ScriptedPlugin accuracy_metadata [Returned [''w'' \<mapsto> PInt 2] double_0_6]"
  let ?r = "runner_with_best accuracy_metadata [Returned [''w'' \<mapsto> PInt 2] double_0_6]
              double_0_55"
  have p: "plugin ?r = Some ?p"
    by (simp add: runner_with_best_def example_defs)
  have o: "optimize ?p (plugin_state ?p) (current_best_params ?r) (current_best_performance ?r)
      = (Returned [''w'' \<mapsto> PInt 2] double_0_6, [])"
    by (simp add: example_defs)
  have "\<not> float_le double_0_6 double_0_55"
    by (simp add: double_defs)
  then obtain opt where s:
    "fst (optimization_step (env_status 200) (?r, empty_world)) = Inr (Some opt)"
    by (simp add: optimization_step_def Let_def runner_with_best_def example_defs dict_get_def)
  have n: "current_best_performance ?r = Some double_0_55"
    by (simp add: runner_with_best_def example_defs)
  from C3_performance_increment [OF p o s] n s
  have "reported_performance opt = double_0_6 \<and>
        performance_increment opt = Finite (450359962737049 / 2 ^ 53)"
    by (simp add: float_sub_0_6_0_55)
  with s have "\<exists>opt. fst (optimization_step (env_status 200) (?r, empty_world))
               = Inr (Some opt)
         \<and> reported_performance opt = double_0_6
         \<and> performance_increment opt = Finite (450359962737049 / 2 ^ 53)"
    by blast
  moreover have "optimize ?p [Returned [''w'' \<mapsto> PInt 2] double_0_6] (Some [''w'' \<mapsto> PInt 0])
        (Some double_0_55) = (Returned [''w'' \<mapsto> PInt 2] double_0_6, [])"
    by (simp add: example_defs)
  ultimately show ?thesis using p by blast
qed

subsection \<open>Steps that accept nothing\<close>

text \<open>
  Claim C6. When the plugin signals \<^verbatim>\<open>NoImprovementError\<close>, raises another exception, or
  returns a candidate that is that the improvement check rejects (in a higher-is-better domain
  \<^verbatim>\<open>new <= best\<close>, otherwise \<^verbatim>\<open>new >= best\<close>), the step
  returns none and raises nothing; the current-best parameters, the current-best
  performance and the improvements counter are as before (of the runner, only the plugin
  object's own state may differ), and no request is sent.
\<close>

theorem C6_no_acceptance_changes_nothing:
  assumes "plugin r = Some p"
    and "optimize p (plugin_state p) (current_best_params r) (current_best_performance r)
           = (out, ps')"
    and "case out of
           NoImprovementError \<Rightarrow> True
         | OtherException \<Rightarrow> True
         | Returned np nperf \<Rightarrow>
             (case current_best_performance r of
                None \<Rightarrow> False
              | Some best \<Rightarrow>
                  if truthy (dict_get (get_domain_metadata p ps') ''higher_is_better''
                       (PBool True))
                  then float_le nperf best else float_ge nperf best)"
  shows "\<exists>r' w'. optimization_step e (r, w) = (Inr None, r', w')
           \<and> current_best_params r' = current_best_params r
           \<and> current_best_performance r' = current_best_performance r
           \<and> improvements_found r' = improvements_found r
           \<and> r' = r\<lparr>plugin := Some (p\<lparr>plugin_state := ps'\<rparr>)\<rparr>
           \<and> requests w' = requests w"
proof (cases out)
  case NoImprovementError
  with step_NoImprovement [OF assms(1), of ps' e w] assms(2) show ?thesis by simp
next
  case OtherException
  with step_OtherException [OF assms(1), of ps' e w] assms(2) show ?thesis
    by (simp add: log_to_def)
next
  case (Returned np nperf)
  with assms(3) obtain best where b: "current_best_performance r = Some best"
    and rej: "if truthy (dict_get (get_domain_metadata p ps') ''higher_is_better'' (PBool True))
              then float_le nperf best else float_ge nperf best"
    by (auto split: option.splits)
  from step_Returned_rejected [OF assms(1) _ b rej, of np e w] assms(2) Returned
  show ?thesis by simp
qed

text \<open>Scenario C of the tests: the plugin returns 0.5 again after 0.5 was accepted.\<close>

theorem C6_witness:
  "plugin runner_after_first = Some MockNoImprovementOptimizer
   \<and> optimize MockNoImprovementOptimizer (plugin_state MockNoImprovementOptimizer)
        (current_best_params runner_after_first) (current_best_performance runner_after_first)
      = (Returned [''w'' \<mapsto> PInt 1] (Finite (1 / 2)), ())
   \<and> fst (optimization_step (env_status 200) (runner_after_first, empty_world)) = Inr None
   \<and> current_best_performance
        (fst (snd (optimization_step (env_status 200) (runner_after_first, empty_world))))
      = Some (Finite (1 / 2))
   \<and> improvements_found
        (fst (snd (optimization_step (env_status 200) (runner_after_first, empty_world)))) = 1"
proof -
  have p: "plugin runner_after_first = Some MockNoImprovementOptimizer"
    by (simp add: runner_after_first_def example_defs)
  have o: "optimize MockNoImprovementOptimizer (plugin_state MockNoImprovementOptimizer)
        (current_best_params runner_after_first) (current_best_performance runner_after_first)
      = (Returned [''w'' \<mapsto> PInt 1] (Finite (1 / 2)), ())"
    by (simp add: example_defs)
  have c: "case Returned [''w'' \<mapsto> PInt 1] (Finite (1 / 2)) of
           NoImprovementError \<Rightarrow> True
         | OtherException \<Rightarrow> True
         | Returned np nperf \<Rightarrow>
             (case current_best_performance runner_after_first of
                None \<Rightarrow> False
              | Some best \<Rightarrow>
                  if truthy (dict_get (get_domain_metadata MockNoImprovementOptimizer ())
                       ''higher_is_better'' (PBool True))
                  then float_le nperf best else float_ge nperf best)"
    by (simp add: runner_after_first_def example_defs dict_get_def float_ge_def)
  from C6_no_acceptance_changes_nothing [OF p o c, of "env_status 200" empty_world]
  obtain w' where
    "optimization_step (env_status 200) (runner_after_first, empty_world) =
       (Inr None,
        runner_after_first\<lparr>plugin := Some (MockNoImprovementOptimizer\<lparr>plugin_state := ()\<rparr>)\<rparr>,
        w')"
    by blast
  with p o show ?thesis by (simp add: runner_after_first_def)
qed

subsection \<open>Acceptance and submission\<close>

text \<open>The result, the requests and the log of a submission.\<close>

lemma submit_optimae_result:
  "fst (submit_optimae net r optimae w) = (session r = Some SessionOpen \<and> net = Response 200)"
  by (simp add: submit_optimae_def Let_def log_to_def
        split: option.splits ClientSession.splits post_outcome.splits)

lemma submit_optimae_requests:
  "length (requests (snd (submit_optimae net r optimae w))) =
     length (requests w) + (if session r = Some SessionOpen then 1 else 0)"
  by (simp add: submit_optimae_def Let_def log_to_def
        split: option.splits ClientSession.splits post_outcome.splits)

lemma submit_optimae_logs:
  "\<exists>l. logs (snd (submit_optimae net r optimae w)) =
     (if fst (submit_optimae net r optimae w) then logs w else logs w @ [l])"
  by (simp add: submit_optimae_def Let_def log_to_def
        split: option.splits ClientSession.splits post_outcome.splits)

text \<open>
  Claim C7. When a candidate is accepted (it passes the improvement check), then whatever
  the submission does (any status, a transport fault, no session), the step returns the
  record of the candidate, the current best is the new pair and the improvements counter
  is one higher.
\<close>

theorem C7_submission_failure_keeps_improvement:
  assumes "plugin r = Some p"
    and "optimize p (plugin_state p) (current_best_params r) (current_best_performance r)
           = (Returned np nperf, ps')"
    and "case current_best_performance r of
           None \<Rightarrow> True
         | Some best \<Rightarrow>
             if truthy (dict_get (get_domain_metadata p ps') ''higher_is_better'' (PBool True))
             then \<not> float_le nperf best else \<not> float_ge nperf best"
  shows "\<exists>opt r' w'. optimization_step e (r, w) = (Inr (Some opt), r', w')
           \<and> parameters opt = np \<and> reported_performance opt = nperf
           \<and> current_best_params r' = Some np
           \<and> current_best_performance r' = Some nperf
           \<and> improvements_found r' = improvements_found r + 1"
  using step_Returned_accepted [OF assms, of e w] by (simp add: Let_def)

text \<open>Scenario F: the node answers 500 to the first candidate of \<^verbatim>\<open>MockOptimizer\<close>.\<close>

theorem C7_witness:
  "plugin started_runner = Some MockOptimizer
   \<and> optimize MockOptimizer (plugin_state MockOptimizer)
        (current_best_params started_runner) (current_best_performance started_runner)
      = (Returned [''w'' \<mapsto> PInt 1, ''bias'' \<mapsto> PFloat double_0_1] double_0_55,
         [Returned [''w'' \<mapsto> PInt 2, ''bias'' \<mapsto> PFloat double_0_2] double_0_6])
   \<and> current_best_performance started_runner = None
   \<and> (\<exists>opt r' w'. optimization_step (env_status 500) (started_runner, empty_world)
                      = (Inr (Some opt), r', w')
         \<and> \<not> fst (submit_optimae (post_result (env_status 500)) r' opt empty_world)
         \<and> reported_performance opt = double_0_55
         \<and> current_best_params r' = Some [''w'' \<mapsto> PInt 1, ''bias'' \<mapsto> PFloat double_0_1]
         \<and> current_best_performance r' = Some double_0_55
         \<and> improvements_found r' = 1)"
proof -
  let ?ps = "[Returned [''w'' \<mapsto> PInt 2, ''bias'' \<mapsto> PFloat double_0_2] double_0_6]"
  have p: "plugin started_runner = Some MockOptimizer"
    by (simp add: started_runner_def example_defs)
  have o: "optimize MockOptimizer (plugin_state MockOptimizer)
        (current_best_params started_runner) (current_best_performance started_runner)
      = (Returned [''w'' \<mapsto> PInt 1, ''bias'' \<mapsto> PFloat double_0_1] double_0_55, ?ps)"
    by (simp add: example_defs)
  have n: "current_best_performance started_runner = None"
    by (simp add: started_runner_def example_defs)
  then have a: "case current_best_performance started_runner of
           None \<Rightarrow> True
         | Some best \<Rightarrow>
             if truthy (dict_get (get_domain_metadata MockOptimizer ?ps) ''higher_is_better''
                  (PBool True))
             then \<not> float_le double_0_55 best else \<not> float_ge double_0_55 best"
    by simp
  have i: "improvements_found started_runner = 0"
    by (simp add: started_runner_def example_defs)
  have f: "\<not> fst (submit_optimae (post_result (env_status 500)) r' opt empty_world)"
    for r' :: "(optimize_result list) OptimizationRunner" and opt
    by (simp add: submit_optimae_result env_status_def)
  from C7_submission_failure_keeps_improvement [OF p o a, of "env_status 500" empty_world]
    p o n i f
  show ?thesis by auto
qed

text \<open>
  The announcement of an accepted candidate. The step stores the new performance in the
  runner before it submits, and the submission reads the previous best from the runner:
  on an open session the one request sent carries the new performance in both fields.
\<close>

lemma accepted_announcement:
  assumes "plugin r = Some p"
    and "optimize p (plugin_state p) (current_best_params r) (current_best_performance r)
           = (Returned np nperf, ps')"
    and "fst (optimization_step e (r, w)) = Inr (Some opt)"
    and "session r = Some SessionOpen"
  shows "\<exists>url m. requests (snd (snd (optimization_step e (r, w)))) = requests w @ [(url, m)]
           \<and> ann_reported_performance (payload m) = nperf
           \<and> previous_best_performance (payload m) = Some nperf"
  using assms
  by (auto simp: optimization_step_def submit_optimae_def Let_def log_to_def
        split: option.splits if_splits post_outcome.splits)

text \<open>
  Claim C2, at the first step of the test plugin on a started runner: no best performance
  is held before the step, the candidate 0.55 is accepted, and the one announcement sent
  to the node carries 0.55 as previous best performance, not null.
\<close>

theorem C2_first_announcement_previous_best_not_null:
  "current_best_performance started_runner = None
   \<and> fst (optimization_step (env_status 200) (started_runner, empty_world))
       = Inr (Some example_optimae)
   \<and> map (\<lambda>req. previous_best_performance (payload (snd req)))
        (requests (snd (snd (optimization_step (env_status 200)
           (started_runner, empty_world)))))
       = [Some double_0_55]"
  by (simp add: optimization_step_def submit_optimae_def Let_def log_to_def
        started_runner_def example_optimae_def example_defs)

subsection \<open>The outcome of a submission\<close>

text \<open>
  Claim C4, as the code has it. A submission succeeds exactly when the session is open and
  the response status is 200; every other status, a transport fault and a missing or
  closed session give failure. One request is sent on an open session and none otherwise,
  so nothing is retried; a failure appends one line to the log, a success none.
\<close>

theorem C4_success_iff_status_200:
  "fst (submit_optimae net r optimae w) = (session r = Some SessionOpen \<and> net = Response 200)
   \<and> length (requests (snd (submit_optimae net r optimae w))) =
       length (requests w) + (if session r = Some SessionOpen then 1 else 0)
   \<and> (\<exists>l. logs (snd (submit_optimae net r optimae w)) =
         (if fst (submit_optimae net r optimae w) then logs w else logs w @ [l]))"
  using submit_optimae_result [of net r optimae w] submit_optimae_requests [of net r optimae w]
    submit_optimae_logs [of net r optimae w]
  by blast

text \<open>Status 204 is in the 2xx class, and the submission reports failure.\<close>

theorem C4_counterexample:
  "(200 :: nat) \<le> 204 \<and> (204 :: nat) < 300
   \<and> session started_runner = Some SessionOpen
   \<and> fst (submit_optimae (Response 204) started_runner example_optimae empty_world) = False"
  by (simp add: submit_optimae_def Let_def log_to_def started_runner_def example_defs)

section \<open>Properties of the entry points\<close>

subsection \<open>No plugin bound\<close>

text \<open>
  Claim C8. On a runner with no plugin bound, \<^verbatim>\<open>run_single_step\<close> and \<^verbatim>\<open>start\<close> raise the
  \<^verbatim>\<open>RuntimeError\<close> for a missing plugin and leave the runner and the world as they were: no
  step runs, no session is opened, the running flag is not set. The failure ends that call
  only: once a plugin is bound to the same runner, a single step returns a result.
\<close>

theorem C8_plugin_not_loaded:
  assumes "plugin r = None"
  shows "run_single_step e (r, w) = (Inl (RuntimeError ''Plugin not loaded''), r, w)
         \<and> start env fuel (r, w) =
             Some (Inl (RuntimeError
                     ''Plugin not loaded - call load_plugin() or set_plugin() first''), r, w)
         \<and> (\<exists>res r' w'. run_single_step e (set_plugin p r, w) = (Inr res, r', w'))"
proof -
  have "\<exists>res r' w'. optimization_step e (set_plugin p r, w) = (Inr res, r', w')"
    by (auto simp: optimization_step_def set_plugin_def Let_def
          split: prod.splits optimize_result.splits)
  with assms show ?thesis
    by (simp add: run_single_step_def start_def set_plugin_def)
qed

text \<open>Scenario D of the tests: a freshly constructed runner.\<close>

theorem C8_witness:
  "plugin (new_runner :: nat OptimizationRunner) = None
   \<and> run_single_step (env_status 200) (new_runner :: nat OptimizationRunner, empty_world)
       = (Inl (RuntimeError ''Plugin not loaded''), new_runner, empty_world)
   \<and> start (loop_env_of 200 []) 5 (new_runner :: nat OptimizationRunner, empty_world)
       = Some (Inl (RuntimeError
                     ''Plugin not loaded - call load_plugin() or set_plugin() first''),
               new_runner, empty_world)"
proof -
  have p: "plugin (new_runner :: nat OptimizationRunner) = None"
    by (simp add: example_defs)
  from C8_plugin_not_loaded [OF p, of "env_status 200" empty_world "loop_env_of 200 []" 5] p
  show ?thesis by simp
qed

subsection \<open>The step bound of the loop\<close>

text \<open>With a positive \<^verbatim>\<open>max_steps\<close> the loop returns, given fuel for the steps still
  allowed and the last test, and the step counter does not pass the bound.\<close>

lemma start_loop_bounded:
  assumes "max_steps (config r) = Some m" and "0 < m" and "plugin r \<noteq> None"
    and "nat m - steps_completed r < fuel"
  shows "\<exists>r' w'. start_loop env k fuel (r, w) = Some (Inr (), r', w')
           \<and> steps_completed r' \<le> max (steps_completed r) (nat m)"
  using assms
proof (induction fuel arbitrary: k r w)
  case 0
  then show ?case by simp
next
  case (Suc fuel)
  show ?case
  proof (cases "\<not> running r \<or> max_steps_reached r")
    case True
    then show ?thesis by auto
  next
    case False
    then have nr: "\<not> max_steps_reached r" and run: "running r" by auto
    from nr Suc.prems(1,2) have lt: "steps_completed r < nat m"
      by (auto simp: max_steps_reached_def)
    from Suc.prems(3) obtain p where p: "plugin r = Some p" by auto
    from optimization_step_frame [OF p, of "step_envs env k" w]
    obtain res r' w' where s: "optimization_step (step_envs env k) (r, w) = (Inr res, r', w')"
      and f: "config r' = config r" "steps_completed r' = steps_completed r" "plugin r' \<noteq> None"
      by blast
    let ?r = "r'\<lparr>steps_completed := steps_completed r' + 1,
                  running := (if stop_requested env k then False else running r')\<rparr>"
    have "\<exists>r'' w''. start_loop env (Suc k) fuel (?r, w') = Some (Inr (), r'', w'')
            \<and> steps_completed r'' \<le> max (steps_completed ?r) (nat m)"
      using Suc.prems f lt by (intro Suc.IH) auto
    then obtain r'' w'' where l: "start_loop env (Suc k) fuel (?r, w') = Some (Inr (), r'', w'')"
      and b: "steps_completed r'' \<le> max (steps_completed ?r) (nat m)"
      by blast
    from b f lt have "steps_completed r'' \<le> max (steps_completed r) (nat m)" by simp
    with l s run nr show ?thesis by simp
  qed
qed

lemma start_bounded:
  assumes "max_steps (config r) = Some m" and "0 < m" and "plugin r \<noteq> None"
    and "nat m - steps_completed r < fuel"
  shows "\<exists>r' w'. start env fuel (r, w) = Some (Inr (), r', w')
           \<and> steps_completed r' \<le> max (steps_completed r) (nat m)"
proof -
  let ?r = "r\<lparr>session := Some SessionOpen, running := True\<rparr>"
  from assms
  have "\<exists>r' w'. start_loop env 0 fuel (?r, log_to w (LogInfo ''Optimizer starting''))
                  = Some (Inr (), r', w')
           \<and> steps_completed r' \<le> max (steps_completed ?r) (nat m)"
    by (intro start_loop_bounded) auto
  with assms(3) show ?thesis
    by (auto simp: start_def Let_def close_session_def split: option.splits)
qed

text \<open>With \<^verbatim>\<open>max_steps\<close> absent or 0 the bound is never tested: while nobody calls
  \<^verbatim>\<open>stop()\<close>, no amount of fuel lets the loop return.\<close>

lemma start_loop_unbounded:
  assumes "max_steps (config r) = None \<or> max_steps (config r) = Some 0"
    and "plugin r \<noteq> None" and "running r" and "\<And>i. \<not> stop_requested env i"
  shows "start_loop env k fuel (r, w) = None"
  using assms
proof (induction fuel arbitrary: k r w)
  case 0
  then show ?case by simp
next
  case (Suc fuel)
  from Suc.prems(2) obtain p where p: "plugin r = Some p" by auto
  from optimization_step_frame [OF p, of "step_envs env k" w]
  obtain res r' w' where s: "optimization_step (step_envs env k) (r, w) = (Inr res, r', w')"
    and f: "config r' = config r" "running r' = running r" "plugin r' \<noteq> None"
    by blast
  let ?r = "r'\<lparr>steps_completed := steps_completed r' + 1,
                running := (if stop_requested env k then False else running r')\<rparr>"
  have "start_loop env (Suc k) fuel (?r, w') = None"
    using Suc.prems f by (intro Suc.IH) auto
  with Suc.prems s show ?case
    by (auto simp: max_steps_reached_def)
qed

lemma start_unbounded:
  assumes "max_steps (config r) = None \<or> max_steps (config r) = Some 0"
    and "plugin r \<noteq> None" and "\<And>i. \<not> stop_requested env i"
  shows "start env fuel (r, w) = None"
proof -
  let ?r = "r\<lparr>session := Some SessionOpen, running := True\<rparr>"
  from assms
  have "start_loop env 0 fuel (?r, log_to w (LogInfo ''Optimizer starting'')) = None"
    by (intro start_loop_unbounded) auto
  with assms(2) show ?thesis
    by (auto simp: start_def Let_def)
qed

text \<open>
  Claim C5, at the test runner configured with a maximum step count of 0. With a
  \<^verbatim>\<open>stop()\<close> during the third iteration the loop has completed three steps when it
  returns, more than the maximum; with no \<^verbatim>\<open>stop()\<close> it does not return, whatever the
  fuel.
\<close>

theorem C5_max_steps_zero_is_unbounded:
  "max_steps (config zero_max_runner) = Some 0
   \<and> (\<exists>r' w'. start (loop_env_of 200 [2]) 10 (zero_max_runner, empty_world)
                 = Some (Inr (), r', w')
         \<and> steps_completed r' = 3)
   \<and> (\<forall>fuel. start (loop_env_of 200 []) fuel (zero_max_runner, empty_world) = None)"
proof (intro conjI allI)
  show "max_steps (config zero_max_runner) = Some 0"
    by (simp add: zero_max_runner_def example_defs)
  show "\<exists>r' w'. start (loop_env_of 200 [2]) 10 (zero_max_runner, empty_world)
                 = Some (Inr (), r', w')
         \<and> steps_completed r' = 3"
    by (simp add: start_def zero_max_runner_def example_defs numeral_eq_Suc
          optimization_step_def Let_def max_steps_reached_def submit_optimae_def log_to_def
          close_session_def)
  show "start (loop_env_of 200 []) fuel (zero_max_runner, empty_world) = None" for fuel
    by (rule start_unbounded) (simp_all add: zero_max_runner_def example_defs)
qed

section \<open>The invariant of the current-best pair\<close>

lemma best_pair_kept_or_set_refl: "best_pair_kept_or_set r r"
  by (simp add: best_pair_kept_or_set_def)

lemma best_pair_kept_or_set_trans:
  "best_pair_kept_or_set r r' \<Longrightarrow> best_pair_kept_or_set r' r'' \<Longrightarrow> best_pair_kept_or_set r r''"
  by (auto simp: best_pair_kept_or_set_def split: if_splits)

lemma optimization_step_best_pair:
  "best_pair_kept_or_set r (fst (snd (optimization_step e (r, w))))"
  by (auto simp: optimization_step_def best_pair_kept_or_set_def Let_def
        split: option.splits prod.splits optimize_result.splits)

lemma start_loop_best_pair:
  "start_loop env k fuel (r, w) = Some (res, r', w') \<Longrightarrow> best_pair_kept_or_set r r'"
proof (induction fuel arbitrary: k r w)
  case 0
  then show ?case by simp
next
  case (Suc fuel)
  show ?case
  proof (cases "\<not> running r \<or> max_steps_reached r")
    case True
    with Suc.prems show ?thesis
      by (auto simp: best_pair_kept_or_set_refl split: if_splits)
  next
    case False
    obtain sres r1 w1 where s: "optimization_step (step_envs env k) (r, w) = (sres, r1, w1)"
      by (cases "optimization_step (step_envs env k) (r, w)") auto
    from optimization_step_best_pair [of r "step_envs env k" w] s
    have k1: "best_pair_kept_or_set r r1" by simp
    show ?thesis
    proof (cases sres)
      case (Inl err)
      with Suc.prems False s k1 show ?thesis by auto
    next
      case (Inr x)
      let ?r = "r1\<lparr>steps_completed := steps_completed r1 + 1,
                    running := (if stop_requested env k then False else running r1)\<rparr>"
      from Suc.prems False s Inr
      have "start_loop env (Suc k) fuel (?r, w1) = Some (res, r', w')" by auto
      from Suc.IH [OF this] have "best_pair_kept_or_set ?r r'" .
      moreover from k1 have "best_pair_kept_or_set r ?r"
        by (simp add: best_pair_kept_or_set_def)
      ultimately show ?thesis by (rule best_pair_kept_or_set_trans [rotated])
    qed
  qed
qed

lemma start_best_pair:
  "start env fuel (r, w) = Some (res, r', w') \<Longrightarrow> best_pair_kept_or_set r r'"
proof (cases "plugin r")
  case None
  assume "start env fuel (r, w) = Some (res, r', w')"
  with None show ?thesis by (simp add: start_def best_pair_kept_or_set_refl)
next
  case (Some p)
  assume a: "start env fuel (r, w) = Some (res, r', w')"
  with Some obtain r1 where
    l: "start_loop env 0 fuel (r\<lparr>session := Some SessionOpen, running := True\<rparr>,
          log_to w (LogInfo ''Optimizer starting'')) = Some (res, r1, w')"
    and c: "r' = close_session r1"
    by (auto simp: start_def Let_def split: option.splits)
  from start_loop_best_pair [OF l]
  have "best_pair_kept_or_set (r\<lparr>session := Some SessionOpen, running := True\<rparr>) r1" .
  with c show ?thesis
    by (auto simp: best_pair_kept_or_set_def close_session_def split: option.splits)
qed

lemma apply_operation_best_pair:
  "apply_operation opn rw = Some rw' \<Longrightarrow> best_pair_kept_or_set (fst rw) (fst rw')"
proof (cases opn)
  case (Op_load_plugin registry)
  assume "apply_operation opn rw = Some rw'"
  with Op_load_plugin show ?thesis
    by (auto simp: load_plugin_def best_pair_kept_or_set_def split: prod.splits option.splits)
next
  case (Op_set_plugin p)
  assume "apply_operation opn rw = Some rw'"
  with Op_set_plugin show ?thesis
    by (auto simp: set_plugin_def best_pair_kept_or_set_def)
next
  case (Op_start env fuel)
  assume "apply_operation opn rw = Some rw'"
  with Op_start obtain res where "start env fuel (fst rw, snd rw) = Some (res, fst rw', snd rw')"
    by auto
  then show ?thesis by (rule start_best_pair)
next
  case Op_stop
  assume "apply_operation opn rw = Some rw'"
  with Op_stop show ?thesis
    by (auto simp: stop_def best_pair_kept_or_set_def)
next
  case (Op_run_single_step e)
  assume "apply_operation opn rw = Some rw'"
  with Op_run_single_step optimization_step_best_pair [of "fst rw" e "snd rw"] show ?thesis
    by (auto simp: run_single_step_def best_pair_kept_or_set_refl split: option.splits)
next
  case (Op_optimization_step e)
  assume "apply_operation opn rw = Some rw'"
  with Op_optimization_step optimization_step_best_pair [of "fst rw" e "snd rw"] show ?thesis
    by auto
next
  case (Op_submit_optimae net optimae)
  assume "apply_operation opn rw = Some rw'"
  with Op_submit_optimae show ?thesis
    by (auto simp: best_pair_kept_or_set_refl)
qed

text \<open>
  Claim C9. In every state that the operations of the runner reach from a freshly
  constructed one, the current-best parameters and the current-best performance are both
  absent or both present. They are absent after construction, and every operation leaves
  the two as they were or sets both.
\<close>

theorem C9_best_pair_both_or_neither:
  assumes "reachable rw"
  shows "(current_best_params (fst rw) = None) = (current_best_performance (fst rw) = None)
         \<and> (\<forall>opn rw'. apply_operation opn rw = Some rw' \<longrightarrow>
               best_pair_kept_or_set (fst rw) (fst rw')
               \<and> (current_best_params (fst rw') = None)
                   = (current_best_performance (fst rw') = None))"
proof -
  have inv: "(current_best_params (fst rw) = None) = (current_best_performance (fst rw) = None)"
    if "reachable rw" for rw :: "'a OptimizationRunner \<times> world"
    using that
  proof (induction rule: reachable.induct)
    case (reachable_init cfg identity generated w)
    show ?case by (simp add: OptimizationRunner_init_def)
  next
    case (reachable_step rw opn rw')
    from apply_operation_best_pair [OF reachable_step.hyps(2)] reachable_step.IH
    show ?case by (auto simp: best_pair_kept_or_set_def split: if_splits)
  qed
  show ?thesis
  proof (intro conjI allI impI)
    show "(current_best_params (fst rw) = None) = (current_best_performance (fst rw) = None)"
      using assms by (rule inv)
  next
    fix opn rw' assume a: "apply_operation opn rw = Some rw'"
    then show "best_pair_kept_or_set (fst rw) (fst rw')" by (rule apply_operation_best_pair)
    from assms a have "reachable rw'" by (rule reachable_step)
    then show "(current_best_params (fst rw') = None) = (current_best_performance (fst rw') = None)"
      by (rule inv)
  qed
qed

text \<open>The test runner and the state after its first single step.\<close>

theorem C9_witness:
  "reachable (make_runner, empty_world)
   \<and> current_best_params make_runner = None \<and> current_best_performance make_runner = None
   \<and> apply_operation (Op_run_single_step (env_status 200)) (make_runner, empty_world)
       = Some (snd (run_single_step (env_status 200) (make_runner, empty_world)))
   \<and> current_best_params
        (fst (snd (run_single_step (env_status 200) (make_runner, empty_world))))
       = Some [''w'' \<mapsto> PInt 1, ''bias'' \<mapsto> PFloat double_0_1]
   \<and> current_best_performance
        (fst (snd (run_single_step (env_status 200) (make_runner, empty_world))))
       = Some double_0_55"
proof -
  have "reachable (new_runner :: (optimize_result list) OptimizationRunner, empty_world)"
    unfolding new_runner_def by (rule reachable_init)
  moreover have "apply_operation (Op_set_plugin MockOptimizer)
      (new_runner :: (optimize_result list) OptimizationRunner, empty_world) = Some (make_runner, empty_world)"
    by (simp add: make_runner_def)
  ultimately have r: "reachable (make_runner, empty_world)" by (rule reachable_step)
  have a: "apply_operation (Op_run_single_step (env_status 200)) (make_runner, empty_world)
       = Some (snd (run_single_step (env_status 200) (make_runner, empty_world)))"
    by simp
  have v: "current_best_params
        (fst (snd (run_single_step (env_status 200) (make_runner, empty_world))))
       = Some [''w'' \<mapsto> PInt 1, ''bias'' \<mapsto> PFloat double_0_1]"
    "current_best_performance
        (fst (snd (run_single_step (env_status 200) (make_runner, empty_world))))
       = Some double_0_55"
    by (simp_all add: run_single_step_def optimization_step_def Let_def example_defs)
  from C9_best_pair_both_or_neither [OF r] r a v
  show ?thesis by (simp add: example_defs)
qed

end
